theory Spec2Isabelle
  imports Complex_Main
begin

section \<open>Errors, log records and effects\<close>

text \<open>
  The development follows \<^verbatim>\<open>train/comms/pt/comms_utils.py\<close>. A Python exception is a
  value of type \<open>error\<close>; a function that can raise returns \<open>error + 'a\<close>. The text
  of an f-string message is represented by a constructor that carries the interpolated
  values. Python floats are modelled by exact rationals (no rounding, no infinities, no
  NaN); Python integers are \<open>int\<close>.
\<close>

datatype dtype = Float32 | Int32 | Long | Half | BFloat16 | Double | Bool | UInt8

record tensor =
  t_dtype :: dtype
  t_elems :: "rat list"

datatype tensor_arg = One tensor | Many "tensor list"

datatype message =
    UnsupportedComm string "string list"
  | QuantCollectiveUnsupported string
  | QuantBeginSizeNotMultiple int int
  | QuantMustBeSynchronous
  | QuantDtypeUnsupported dtype
  | SizesMaxIters int int
  | BusBWUnsupported string
  | WrongValue int string "nat option" nat rat int tensor_arg

datatype error =
    SystemExit "message option"
  | NotImplementedError message
  | ValueError message
  | ZeroDivisionError
  | AttributeError

text \<open>
  The backend's allocation primitives are external. A call is recorded as an event that
  keeps the arguments of the call and the identity of the object it returned; the logger's
  calls are events too.
\<close>

datatype alloc_fn = Alloc_ones | Alloc_random | Alloc_empty

datatype sizeArr = Dims "int list" | Count int

datatype event =
    Alloc alloc_fn nat sizeArr string dtype int
  | LogError message
  | LogWarning message

record st =
  next_id :: nat
  events :: "event list"
  opTensor_split :: "int list"
  ipTensor_split :: "int list"

type_synonym 'a comp = "st \<Rightarrow> (error + 'a) \<times> st"

definition ret :: "'a \<Rightarrow> 'a comp" where
  "ret x = (\<lambda>s. (Inr x, s))"

definition raise :: "error \<Rightarrow> 'a comp" where
  "raise e = (\<lambda>s. (Inl e, s))"

definition andThen :: "'a comp \<Rightarrow> ('a \<Rightarrow> 'b comp) \<Rightarrow> 'b comp" where
  "andThen m f = (\<lambda>s. case m s of (Inl e, s') \<Rightarrow> (Inl e, s') | (Inr x, s') \<Rightarrow> f x s')"

definition emit :: "event \<Rightarrow> unit comp" where
  "emit ev = (\<lambda>s. (Inr (), s\<lparr>events := events s @ [ev]\<rparr>))"

definition fresh :: "nat comp" where
  "fresh = (\<lambda>s. (Inr (next_id s), s\<lparr>next_id := Suc (next_id s)\<rparr>))"

definition lift :: "error + 'a \<Rightarrow> 'a comp" where
  "lift r = (\<lambda>s. (r, s))"

definition bindE :: "error + 'a \<Rightarrow> ('a \<Rightarrow> error + 'b) \<Rightarrow> error + 'b" where
  "bindE r f = (case r of Inl e \<Rightarrow> Inl e | Inr x \<Rightarrow> f x)"

definition is_alloc :: "event \<Rightarrow> bool" where
  "is_alloc ev = (case ev of Alloc f i sz dev dt sc \<Rightarrow> True | _ \<Rightarrow> False)"

text \<open>\<^verbatim>\<open>gracefulExit(args)\<close>: log the message unless it is the default 0, then \<^verbatim>\<open>sys.exit\<close>.
  \<open>None\<close> stands for the default argument 0.\<close>

definition gracefulExit :: "message option \<Rightarrow> unit comp" where
  "gracefulExit args =
     andThen (case args of None \<Rightarrow> ret () | Some m \<Rightarrow> emit (LogError m))
       (\<lambda>_. raise (SystemExit args))"

section \<open>Operation names\<close>

text \<open>
  Collective names are ASCII identifiers. On ASCII, \<^verbatim>\<open>str.lower\<close> maps \<open>A..Z\<close> to
  \<open>a..z\<close> and keeps every other character, and \<^verbatim>\<open>str.isalpha\<close> holds of the 52 letters.
\<close>

definition ascii_upper :: string where
  "ascii_upper = ''ABCDEFGHIJKLMNOPQRSTUVWXYZ''"

definition ascii_lower :: string where
  "ascii_lower = ''abcdefghijklmnopqrstuvwxyz''"

definition char_lower :: "char \<Rightarrow> char" where
  "char_lower c = (case map_of (zip ascii_upper ascii_lower) c of Some l \<Rightarrow> l | None \<Rightarrow> c)"

definition isalpha :: "char \<Rightarrow> bool" where
  "isalpha c = (c \<in> set (ascii_upper @ ascii_lower))"

definition lower :: "string \<Rightarrow> string" where
  "lower s = map char_lower s"

definition name_aliases :: "(string \<times> string) list" where
  "name_aliases =
     [(''alltoall'', ''all_to_all''),
      (''alltoallv'', ''all_to_allv''),
      (''alltoallbase'', ''all_to_allv''),
      (''allreduce'', ''all_reduce''),
      (''allgather'', ''all_gather''),
      (''allgatherbase'', ''all_gather_base''),
      (''reducescatter'', ''reduce_scatter''),
      (''recvanysource'', ''recv'')]"

text \<open>The first half of \<^verbatim>\<open>paramToCommName\<close>: the alias lookup on the lowered name with
  every non-letter removed; a name with no alias is returned as it was given.\<close>

definition aliasedName :: "string \<Rightarrow> string" where
  "aliasedName name =
     (let new_name = lower name;
          new_name = filter isalpha new_name
      in case map_of name_aliases new_name of Some a \<Rightarrow> a | None \<Rightarrow> name)"

definition paramToCommName :: "string \<Rightarrow> string list option \<Rightarrow> string comp" where
  "paramToCommName name supported_comms =
     (let new_name = aliasedName name
      in case supported_comms of
           None \<Rightarrow> ret new_name
         | Some sc \<Rightarrow>
             if new_name \<notin> set sc
             then andThen (gracefulExit (Some (UnsupportedComm name sc))) (\<lambda>_. ret new_name)
             else ret new_name)"

section \<open>Arithmetic that can raise\<close>

text \<open>Python's \<^verbatim>\<open>/\<close>, \<^verbatim>\<open>//\<close> and \<^verbatim>\<open>%\<close> raise \<^verbatim>\<open>ZeroDivisionError\<close> on a zero
  divisor; \<^verbatim>\<open>//\<close> and \<^verbatim>\<open>%\<close> on integers round to minus infinity, as \<open>div\<close> and
  \<open>mod\<close> on \<open>int\<close> do.\<close>

definition py_truediv :: "rat \<Rightarrow> rat \<Rightarrow> error + rat" where
  "py_truediv a b = (if b = 0 then Inl ZeroDivisionError else Inr (a / b))"

definition py_floordiv :: "int \<Rightarrow> int \<Rightarrow> error + int" where
  "py_floordiv a b = (if b = 0 then Inl ZeroDivisionError else Inr (a div b))"

definition py_mod :: "int \<Rightarrow> int \<Rightarrow> error + int" where
  "py_mod a b = (if b = 0 then Inl ZeroDivisionError else Inr (a mod b))"

section \<open>Bandwidth and message sizes\<close>

definition getAlgBW :: "rat \<Rightarrow> int \<Rightarrow> int \<Rightarrow> error + (rat \<times> rat)" where
  "getAlgBW elapsedTimeNS dataSize numIters =
     bindE (if numIters \<noteq> 0 then py_truediv elapsedTimeNS (of_int numIters) else Inr 0)
       (\<lambda>avgIterNS.
          bindE (if avgIterNS \<noteq> 0 then py_truediv (of_int dataSize) avgIterNS else Inr 0)
            (\<lambda>algBW. Inr (avgIterNS, algBW)))"

text \<open>The loop of \<^verbatim>\<open>getSizes\<close>; \<open>numIters\<close> and \<open>allSizes\<close> are the loop's variables.\<close>

function getSizes_loop ::
  "int \<Rightarrow> int \<Rightarrow> int \<Rightarrow> int \<Rightarrow> int \<Rightarrow> int list \<Rightarrow> int list comp" where
  "getSizes_loop curSize endSize stepFactor stepBytes numIters allSizes =
     (if curSize \<le> endSize
      then (if numIters + 1 > 100
            then andThen (emit (LogError (SizesMaxIters (numIters + 1) 100)))
                   (\<lambda>_. ret (allSizes @ [curSize]))
            else getSizes_loop
                   (if stepBytes = 0 then curSize * stepFactor else curSize + stepBytes)
                   endSize stepFactor stepBytes (numIters + 1) (allSizes @ [curSize]))
      else ret allSizes)"
  by pat_completeness auto
termination
  by (relation "measure (\<lambda>(curSize, endSize, stepFactor, stepBytes, numIters, allSizes).
                   nat (101 - numIters))") auto

definition getSizes :: "int \<Rightarrow> int \<Rightarrow> int \<Rightarrow> int \<Rightarrow> int list comp" where
  "getSizes b e stepFactor stepBytes = getSizes_loop b e stepFactor stepBytes 0 []"

section \<open>Parameter holders\<close>

text \<open>Only the attributes read by the functions below are kept. \<open>dcheck_c\<close> is the
  attribute \<^verbatim>\<open>dcheck\<close> (the command line's \<^verbatim>\<open>--c\<close>).\<close>

record commsParamsHolder =
  collective :: string
  dtype :: dtype
  device :: string
  dcheck_c :: int
  srcOrDst :: int
  dst_ranks :: "int list"
  beginSize :: int
  element_size :: int
  bitwidth :: int
  quant_a2a_embedding_dim :: int

record commsArgs =
  comms :: "string option"
  inMsgSize :: int
  outMsgSize :: int
  inSplit :: "int list option"
  outSplit :: "int list option"

text \<open>\<^verbatim>\<open>collectiveArgs.opTensor_split\<close> and \<^verbatim>\<open>ipTensor_split\<close>, which staging assigns,
  are in the state \<open>st\<close>.\<close>

record collectiveArgsHolder =
  world_size :: int
  src_ranks :: "int list"

text \<open>The benchmark object: \<open>collectiveFunc\<close> are the keys of
  \<^verbatim>\<open>backendFuncs.collectiveFunc\<close>, \<open>get_global_rank\<close> the value of
  \<^verbatim>\<open>backendFuncs.get_global_rank()\<close>.\<close>

record paramCommsBench =
  collectiveFunc :: "string list"
  get_global_rank :: int
  collectiveArgs :: collectiveArgsHolder
  initVal :: int

definition fixBeginSize :: "commsParamsHolder \<Rightarrow> int \<Rightarrow> error + commsParamsHolder" where
  "fixBeginSize commsParams ws =
     (if collective commsParams \<in> set [''all_to_all'', ''all_to_allv'', ''all_gather'',
            ''all_gather_base'', ''gather'', ''reduce_scatter_base'']
      then
        bindE (py_truediv (of_int (beginSize commsParams)) (of_int (element_size commsParams)))
          (\<lambda>q. let p1 = (if q < of_int ws
                          then commsParams\<lparr>beginSize := ws * element_size commsParams\<rparr>
                          else commsParams)
                in bindE (if bitwidth p1 < 32
                          then bindE (py_truediv (of_int (beginSize p1)) (of_int (element_size p1)))
                                 (\<lambda>a. bindE (py_truediv a (of_int ws))
                                    (\<lambda>b. Inr (b < of_int (quant_a2a_embedding_dim p1))))
                          else Inr False)
                     (\<lambda>c. Inr (if c
                                then p1\<lparr>beginSize :=
                                       quant_a2a_embedding_dim p1 * ws * element_size p1\<rparr>
                                else p1)))
      else if collective commsParams = ''all_reduce'' \<or> collective commsParams = ''reduce''
      then Inr (if beginSize commsParams < element_size commsParams
                then commsParams\<lparr>beginSize := element_size commsParams\<rparr>
                else commsParams)
      else Inr commsParams)"

definition checkQuantArgs :: "string \<Rightarrow> dtype \<Rightarrow> int \<Rightarrow> int \<Rightarrow> int \<Rightarrow> unit comp" where
  "checkQuantArgs coll dt bSize embedding_dim blocking =
     (if coll \<notin> set [''all_to_all'', ''all_to_allv'', ''reduce'', ''all_reduce'']
      then raise (NotImplementedError (QuantCollectiveUnsupported coll))
      else
        andThen
          (if coll \<in> set [''all_to_all'', ''all_to_allv'']
           then andThen (lift (py_mod (bSize div 4) embedding_dim))
                  (\<lambda>r. andThen
                          (if r \<noteq> 0
                           then emit (LogWarning (QuantBeginSizeNotMultiple bSize embedding_dim))
                           else ret ())
                          (\<lambda>_. if blocking \<noteq> 1
                                then raise (NotImplementedError QuantMustBeSynchronous)
                                else ret ()))
           else ret ())
          (\<lambda>_. if dt \<noteq> Float32
                then raise (NotImplementedError (QuantDtypeUnsupported dt))
                else ret ()))"

definition getBusBW :: "string \<Rightarrow> rat \<Rightarrow> collectiveArgsHolder \<Rightarrow> rat comp" where
  "getBusBW coll algBW cArgs =
     (if coll = ''all_reduce''
      then andThen
             (if world_size cArgs \<noteq> 0
              then lift (py_truediv (of_int (2 * (world_size cArgs - 1)))
                           (of_int (world_size cArgs)))
              else ret 1)
             (\<lambda>mulFactor. ret (algBW * mulFactor))
      else if coll \<in> set [''all_to_all'', ''all_to_allv'', ''gather'', ''all_gather'',
                 ''reduce_scatter'', ''reduce_scatter_base'', ''scatter'', ''all_gather_base'']
      then andThen
             (if world_size cArgs \<noteq> 0
              then lift (py_truediv (of_int (world_size cArgs - 1)) (of_int (world_size cArgs)))
              else ret 1)
             (\<lambda>mulFactor. ret (algBW * mulFactor))
      else if coll \<in> set [''reduce'', ''broadcast'', ''incast'', ''multicast'']
      then ret algBW
      else andThen (emit (LogError (BusBWUnsupported coll))) (\<lambda>_. ret algBW))"

section \<open>Data validation\<close>

text \<open>
  A tensor is its dtype and its elements (one-dimensional, as staging allocates them); an
  element of a boolean tensor is 0 or 1. \<^verbatim>\<open>dcheck\<close> receives a tensor or a list of
  tensors.

  \<^verbatim>\<open>torch.eq(t, expRes)\<close> and \<^verbatim>\<open>val != expRes\<close> compare an element of the tensor with
  the Python integer \<open>expRes\<close> as the tensor library does for the tensor's dtype: the
  integer is converted to that dtype first, so the comparison is not equality of the
  mathematical values. The library is not part of this repository; its comparison is the
  parameter \<open>torch_eq\<close> (dtype, element, integer), and \<^verbatim>\<open>!=\<close> is its negation.
  \<open>check_vals\<close> is the loop over \<^verbatim>\<open>enumerate(t)\<close> that raises at the first element that
  does not compare equal to \<open>expRes\<close>.
\<close>

fun check_vals ::
  "(rat \<Rightarrow> int \<Rightarrow> bool) \<Rightarrow> (nat \<Rightarrow> rat \<Rightarrow> error) \<Rightarrow> int \<Rightarrow> nat \<Rightarrow> rat list \<Rightarrow> error + unit" where
  "check_vals eq mk expRes index [] = Inr ()"
| "check_vals eq mk expRes index (val # vs) =
     (if \<not> eq val expRes then Inl (mk index val) else check_vals eq mk expRes (Suc index) vs)"

definition check_tensor ::
  "(dtype \<Rightarrow> rat \<Rightarrow> int \<Rightarrow> bool) \<Rightarrow> (nat \<Rightarrow> rat \<Rightarrow> error) \<Rightarrow> int \<Rightarrow> tensor \<Rightarrow> error + unit" where
  "check_tensor torch_eq mk expRes t =
     (if \<not> list_all (\<lambda>v. torch_eq (t_dtype t) v expRes) (t_elems t)
      then check_vals (torch_eq (t_dtype t)) mk expRes 0 (t_elems t)
      else Inr ())"

fun check_list ::
  "(dtype \<Rightarrow> rat \<Rightarrow> int \<Rightarrow> bool) \<Rightarrow> (nat \<Rightarrow> nat \<Rightarrow> rat \<Rightarrow> error) \<Rightarrow> int \<Rightarrow> nat \<Rightarrow> tensor list
     \<Rightarrow> error + unit" where
  "check_list torch_eq mk expRes rank [] = Inr ()"
| "check_list torch_eq mk expRes rank (t # ts) =
     bindE (check_tensor torch_eq (mk rank) expRes t)
       (\<lambda>_. check_list torch_eq mk expRes (Suc rank) ts)"

definition dcheck ::
  "(dtype \<Rightarrow> rat \<Rightarrow> int \<Rightarrow> bool) \<Rightarrow> paramCommsBench \<Rightarrow> commsParamsHolder \<Rightarrow> int \<Rightarrow> tensor_arg
     \<Rightarrow> error + unit" where
  "dcheck torch_eq self commsParams curSize tensor =
     bindE
       (if collective commsParams \<in> set [''all_reduce'', ''reduce_scatter'', ''reduce_scatter_base'']
           \<or> (get_global_rank self = srcOrDst commsParams \<and> collective commsParams = ''reduce'')
        then (case tensor of
                Many ts \<Rightarrow> Inl AttributeError
              | One t \<Rightarrow> Inr (if t_dtype t = Bool
                               then initVal self
                               else world_size (collectiveArgs self) * initVal self))
        else Inr (initVal self))
       (\<lambda>expRes.
          if (collective commsParams \<in> set [''incast'', ''reduce'', ''gather'']
                \<and> get_global_rank self \<noteq> srcOrDst commsParams)
             \<or> (collective commsParams \<in> set [''multicast'', ''pt2pt'']
                   \<and> get_global_rank self \<notin> set (dst_ranks commsParams))
          then Inr ()
          else (case tensor of
                  Many ts \<Rightarrow>
                    check_list torch_eq
                      (\<lambda>rank index val. ValueError (WrongValue curSize (collective commsParams)
                           (Some rank) index val expRes tensor))
                      expRes 0 ts
                | One t \<Rightarrow>
                    check_tensor torch_eq
                      (\<lambda>index val. ValueError (WrongValue curSize (collective commsParams)
                           None index val expRes tensor))
                      expRes t))"

section \<open>Tensor staging\<close>

text \<open>
  An object created during staging, a tensor returned by the backend or a Python list, has
  the identity \<open>next_id\<close> had when it was created: two buffers are the same object
  exactly when their identities are equal.
\<close>

datatype buffer = TensorObj nat | ListObj nat "buffer list"

fun obj_id :: "buffer \<Rightarrow> nat" where
  "obj_id (TensorObj i) = i"
| "obj_id (ListObj i xs) = i"

definition backend_alloc :: "alloc_fn \<Rightarrow> sizeArr \<Rightarrow> string \<Rightarrow> dtype \<Rightarrow> int \<Rightarrow> buffer comp" where
  "backend_alloc f sizeArr curRankDevice dt scaleFactor =
     andThen fresh
       (\<lambda>i. andThen (emit (Alloc f i sizeArr curRankDevice dt scaleFactor))
               (\<lambda>_. ret (TensorObj i)))"

definition alloc_ones :: "sizeArr \<Rightarrow> string \<Rightarrow> dtype \<Rightarrow> int \<Rightarrow> buffer comp" where
  "alloc_ones = backend_alloc Alloc_ones"

definition alloc_random :: "sizeArr \<Rightarrow> string \<Rightarrow> dtype \<Rightarrow> int \<Rightarrow> buffer comp" where
  "alloc_random = backend_alloc Alloc_random"

text \<open>\<^verbatim>\<open>[]\<close>: a new, empty list object.\<close>

definition new_list :: "buffer comp" where
  "new_list = andThen fresh (\<lambda>i. ret (ListObj i []))"

text \<open>\<^verbatim>\<open>xs.append(x)\<close>; staging appends to list objects only.\<close>

fun list_append :: "buffer \<Rightarrow> buffer \<Rightarrow> buffer" where
  "list_append (ListObj i xs) x = ListObj i (xs @ [x])"
| "list_append (TensorObj i) x = TensorObj i"

text \<open>\<^verbatim>\<open>for _ in range(n): xs.append(body)\<close>, for a list object \<open>xs\<close>.\<close>

fun append_allocs :: "nat \<Rightarrow> buffer comp \<Rightarrow> buffer \<Rightarrow> buffer comp" where
  "append_allocs 0 body xs = ret xs"
| "append_allocs (Suc k) body xs =
     andThen body (\<lambda>t. append_allocs k body (list_append xs t))"

definition set_opTensor_split :: "int list \<Rightarrow> unit comp" where
  "set_opTensor_split v = (\<lambda>s. (Inr (), s\<lparr>opTensor_split := v\<rparr>))"

definition set_ipTensor_split :: "int list \<Rightarrow> unit comp" where
  "set_ipTensor_split v = (\<lambda>s. (Inr (), s\<lparr>ipTensor_split := v\<rparr>))"

type_synonym prep_fn =
  "paramCommsBench \<Rightarrow> buffer \<Rightarrow> commsArgs \<Rightarrow> commsParamsHolder \<Rightarrow> int \<Rightarrow> int \<Rightarrow> int \<Rightarrow>
   string \<Rightarrow> dtype \<Rightarrow> int \<Rightarrow> bool \<Rightarrow> (buffer \<times> buffer) comp"

definition prep_all_to_allv :: prep_fn where
  "prep_all_to_allv self ipTensor curComm commsParams numElementsIn numElementsOut ws
       curDevice dt scaleFactor allocate =
     andThen new_list (\<lambda>opTensor0.
     andThen (if allocate
              then alloc_random (Dims [numElementsOut]) curDevice dt scaleFactor
              else ret opTensor0) (\<lambda>opTensor.
     andThen (set_opTensor_split
                (case outSplit curComm of
                   Some sp \<Rightarrow> sp
                 | None \<Rightarrow> replicate (nat ws) (numElementsOut div ws))) (\<lambda>_.
     andThen (set_ipTensor_split
                (case inSplit curComm of
                   Some sp \<Rightarrow> sp
                 | None \<Rightarrow> replicate (nat ws) (numElementsIn div ws))) (\<lambda>_.
     ret (ipTensor, opTensor)))))"

definition prep_all_to_all :: prep_fn where
  "prep_all_to_all self ipTensor curComm commsParams numElementsIn numElementsOut ws
       curDevice dt scaleFactor allocate =
     andThen new_list (\<lambda>ipTensor0.
     andThen new_list (\<lambda>opTensor0.
     if allocate
     then
       andThen
         (if dcheck_c commsParams = 1
          then append_allocs (nat ws)
                 (andThen (lift (py_floordiv numElementsIn ws))
                    (\<lambda>n. alloc_ones (Dims [n]) curDevice (dtype commsParams) (initVal self)))
                 ipTensor0
          else append_allocs (nat ws)
                 (andThen (lift (py_floordiv numElementsIn ws))
                    (\<lambda>n. alloc_random (Dims [n]) curDevice (dtype commsParams) scaleFactor))
                 ipTensor0) (\<lambda>ipTensor1.
       andThen
         (append_allocs (nat ws)
            (andThen (lift (py_floordiv numElementsOut ws))
               (\<lambda>n. alloc_random (Dims [n]) curDevice dt scaleFactor))
            opTensor0) (\<lambda>opTensor1.
       ret (ipTensor1, opTensor1)))
     else ret (ipTensor0, opTensor0)))"

definition prep_all_gather :: prep_fn where
  "prep_all_gather self ipTensor curComm commsParams numElementsIn numElementsOut ws
       curDevice dt scaleFactor allocate =
     andThen new_list (\<lambda>opTensor0.
     if allocate
     then
       andThen
         (if dcheck_c commsParams = 1
          then andThen (lift (py_floordiv numElementsIn ws))
                 (\<lambda>n. alloc_ones (Dims [n]) curDevice dt (initVal self))
          else andThen (lift (py_floordiv numElementsIn ws))
                 (\<lambda>n. alloc_random (Dims [n]) curDevice dt scaleFactor)) (\<lambda>ipTensor1.
       andThen
         (append_allocs (nat ws)
            (andThen (lift (py_floordiv numElementsIn ws))
               (\<lambda>n. alloc_random (Dims [n]) curDevice dt scaleFactor))
            opTensor0) (\<lambda>opTensor1.
       ret (ipTensor1, opTensor1)))
     else ret (ipTensor, opTensor0))"

definition prep_all_gather_base :: prep_fn where
  "prep_all_gather_base self ipTensor curComm commsParams numElementsIn numElementsOut ws
       curDevice dt scaleFactor allocate =
     andThen new_list (\<lambda>opTensor0.
     if allocate
     then
       andThen
         (if dcheck_c commsParams = 1
          then andThen (lift (py_floordiv numElementsIn ws))
                 (\<lambda>n. alloc_ones (Dims [n]) curDevice dt (initVal self))
          else andThen (lift (py_floordiv numElementsIn ws))
                 (\<lambda>n. alloc_random (Dims [n]) curDevice dt scaleFactor)) (\<lambda>ipTensor1.
       andThen (alloc_random (Count numElementsIn) curDevice dt scaleFactor) (\<lambda>opTensor1.
       ret (ipTensor1, opTensor1)))
     else ret (ipTensor, opTensor0))"

definition prep_incast :: prep_fn where
  "prep_incast self ipTensor curComm commsParams numElementsIn numElementsOut ws
       curDevice dt scaleFactor allocate =
     andThen new_list (\<lambda>opTensor0.
     if allocate
     then
       andThen
         (append_allocs (length (src_ranks (collectiveArgs self)))
            (alloc_random (Dims [numElementsOut]) curDevice dt scaleFactor)
            opTensor0) (\<lambda>opTensor1.
       ret (ipTensor, opTensor1))
     else ret (ipTensor, opTensor0))"

definition prep_reduce_scatter :: prep_fn where
  "prep_reduce_scatter self ipTensor curComm commsParams numElementsIn numElementsOut ws
       curDevice dt scaleFactor allocate =
     andThen new_list (\<lambda>ipTensor0.
     andThen new_list (\<lambda>opTensor0.
     if allocate
     then
       andThen
         (if dcheck_c commsParams = 1
          then append_allocs (nat ws)
                 (andThen (lift (py_floordiv numElementsOut ws))
                    (\<lambda>n. alloc_ones (Dims [n]) curDevice (dtype commsParams) (initVal self)))
                 ipTensor0
          else append_allocs (nat ws)
                 (andThen (lift (py_floordiv numElementsOut ws))
                    (\<lambda>n. alloc_random (Dims [n]) curDevice (dtype commsParams) scaleFactor))
                 ipTensor0) (\<lambda>ipTensor1.
       andThen
         (andThen (lift (py_floordiv numElementsOut ws))
            (\<lambda>n. alloc_random (Dims [n]) curDevice dt scaleFactor)) (\<lambda>opTensor1.
       ret (ipTensor1, opTensor1)))
     else ret (ipTensor0, opTensor0)))"

definition prep_reduce_scatter_base :: prep_fn where
  "prep_reduce_scatter_base self ipTensor curComm commsParams numElementsIn numElementsOut ws
       curDevice dt scaleFactor allocate =
     andThen new_list (\<lambda>ipTensor0.
     andThen new_list (\<lambda>opTensor0.
     if allocate
     then
       andThen
         (if dcheck_c commsParams = 1
          then alloc_ones (Count numElementsOut) curDevice (dtype commsParams) (initVal self)
          else alloc_random (Count numElementsOut) curDevice (dtype commsParams) scaleFactor)
         (\<lambda>ipTensor1.
       andThen
         (andThen (lift (py_floordiv numElementsOut ws))
            (\<lambda>n. alloc_random (Dims [n]) curDevice dt scaleFactor)) (\<lambda>opTensor1.
       ret (ipTensor1, opTensor1)))
     else ret (ipTensor0, opTensor0)))"

definition prep_pt2pt :: prep_fn where
  "prep_pt2pt self ipTensor curComm commsParams numElementsIn numElementsOut ws
       curDevice dt scaleFactor allocate =
     andThen new_list (\<lambda>opTensor0.
     andThen (if allocate
              then alloc_random (Dims [numElementsOut]) curDevice dt scaleFactor
              else ret opTensor0) (\<lambda>opTensor.
     ret (ipTensor, opTensor)))"

definition dispatchDict :: "(string \<times> prep_fn) list" where
  "dispatchDict =
     [(''all_to_allv'', prep_all_to_allv),
      (''all_to_all'', prep_all_to_all),
      (''all_gather'', prep_all_gather),
      (''gather'', prep_all_gather),
      (''all_gather_base'', prep_all_gather_base),
      (''incast'', prep_incast),
      (''reduce_scatter'', prep_reduce_scatter),
      (''reduce_scatter_base'', prep_reduce_scatter_base),
      (''scatter'', prep_reduce_scatter),
      (''pt2pt'', prep_pt2pt)]"

definition prepComm ::
  "paramCommsBench \<Rightarrow> commsArgs \<Rightarrow> commsParamsHolder \<Rightarrow> bool \<Rightarrow> (buffer \<times> buffer) comp" where
  "prepComm self curComm commsParams allocate =
     andThen
       (paramToCommName
          (case comms curComm of Some c \<Rightarrow> c | None \<Rightarrow> collective commsParams)
          (Some (collectiveFunc self))) (\<lambda>commOp.
     if commOp \<in> set [''wait'', ''barrier'']
     then andThen new_list (\<lambda>a. andThen new_list (\<lambda>b. ret (a, b)))
     else
       (let numElementsIn = inMsgSize curComm;
            numElementsOut = outMsgSize curComm;
            ws = world_size (collectiveArgs self);
            dt = dtype commsParams;
            curDevice = device commsParams;
            scaleFactor = numElementsOut * numElementsOut
        in andThen new_list (\<lambda>opTensor0.
           andThen
             (if allocate
              then (if dcheck_c commsParams = 1
                    then alloc_ones (Dims [numElementsIn]) curDevice dt (initVal self)
                    else alloc_random (Dims [numElementsIn]) curDevice dt scaleFactor)
              else new_list) (\<lambda>ipTensor.
           case map_of dispatchDict commOp of
             Some function_to_call \<Rightarrow>
               function_to_call self ipTensor curComm commsParams numElementsIn
                 numElementsOut ws curDevice dt scaleFactor allocate
           | None \<Rightarrow> ret (ipTensor, ipTensor)))))"

section \<open>Concrete configurations\<close>

text \<open>A start state with no object created and no event recorded; the collectives that
  \<^verbatim>\<open>backendFunctions.__init__\<close> registers in \<^verbatim>\<open>collectiveFunc\<close>; a benchmark on rank 0
  of a world of two ranks; parameters and an operation descriptor for a named collective.\<close>

definition st0 :: st where
  "st0 = \<lparr>next_id = 0, events = [], opTensor_split = [], ipTensor_split = []\<rparr>"

definition base_collectiveFunc :: "string list" where
  "base_collectiveFunc =
     [''all_to_all'', ''all_to_allv'', ''all_reduce'', ''broadcast'', ''gather'',
      ''all_gather'', ''all_gather_base'', ''reduce'', ''reduce_scatter'',
      ''reduce_scatter_base'', ''scatter'', ''barrier'', ''incast'', ''multicast'', ''noop'']"

definition bench2 :: paramCommsBench where
  "bench2 = \<lparr>collectiveFunc = base_collectiveFunc, get_global_rank = 0,
              collectiveArgs = \<lparr>world_size = 2, src_ranks = [1]\<rparr>, initVal = 1\<rparr>"

definition params_of :: "string \<Rightarrow> commsParamsHolder" where
  "params_of c = \<lparr>collective = c, dtype = Float32, device = ''cpu'', dcheck_c = 0,
       srcOrDst = 0, dst_ranks = [0], beginSize = 20, element_size = 4, bitwidth = 32,
       quant_a2a_embedding_dim = 32\<rparr>"

definition comm_of :: "string \<Rightarrow> int \<Rightarrow> commsArgs" where
  "comm_of c n = \<lparr>comms = Some c, inMsgSize = n, outMsgSize = n, inSplit = None,
       outSplit = None\<rparr>"

definition bench258 :: paramCommsBench where
  "bench258 = \<lparr>collectiveFunc = base_collectiveFunc, get_global_rank = 0,
                collectiveArgs = \<lparr>world_size = 258, src_ranks = [1]\<rparr>, initVal = 1\<rparr>"

text \<open>
  Modelled from the tensor library's behaviour, which is not part of this repository: a
  comparison with an element of a uint8 tensor converts the Python integer to uint8, that
  is, to its low eight bits. For any other dtype \<open>low8_eq\<close> is equality of the values,
  which is the library's comparison on an integer that the dtype represents exactly (and on
  0 and 1 for a boolean tensor).
\<close>

definition low8_eq :: "dtype \<Rightarrow> rat \<Rightarrow> int \<Rightarrow> bool" where
  "low8_eq dt v n = (if dt = UInt8 then v = of_int (n mod 256) else v = of_int n)"

section \<open>An invariant of staging\<close>

text \<open>\<open>stages_within S m\<close>: from every state the computation \<open>m\<close> returns without an
  error, and every event it adds is an allocation whose size argument is in \<open>S\<close>.\<close>

definition sized_in :: "sizeArr set \<Rightarrow> event \<Rightarrow> bool" where
  "sized_in S ev = (case ev of Alloc f i sz dev dt sc \<Rightarrow> sz \<in> S | _ \<Rightarrow> False)"

definition stages_within :: "sizeArr set \<Rightarrow> 'a comp \<Rightarrow> bool" where
  "stages_within S m =
     (\<forall>s. \<exists>x new. fst (m s) = Inr x \<and> events (snd (m s)) = events s @ new
                  \<and> list_all (sized_in S) new)"

definition staged_sizes :: "int \<Rightarrow> int \<Rightarrow> int \<Rightarrow> sizeArr set" where
  "staged_sizes numElementsIn numElementsOut ws =
     {Dims [numElementsIn], Dims [numElementsOut], Count numElementsIn, Count numElementsOut,
      Dims [numElementsIn div ws], Dims [numElementsOut div ws]}"

section \<open>Alias normalisation\<close>

lemmas name_defs =
  aliasedName_def lower_def char_lower_def isalpha_def ascii_upper_def ascii_lower_def
  name_aliases_def

lemma aliasedName_canonical:
  "aliasedName ''all_to_all'' = ''all_to_all''"
  "aliasedName ''all_to_allv'' = ''all_to_allv''"
  "aliasedName ''all_reduce'' = ''all_reduce''"
  "aliasedName ''all_gather'' = ''all_gather''"
  "aliasedName ''all_gather_base'' = ''all_gather_base''"
  "aliasedName ''reduce_scatter'' = ''reduce_scatter''"
  "aliasedName ''recv'' = ''recv''"
  by (simp_all add: name_defs)

lemma aliasedName_idem: "aliasedName (aliasedName name) = aliasedName name"
proof (cases "map_of name_aliases (filter isalpha (lower name))")
  case None
  then show ?thesis by (simp add: aliasedName_def)
next
  case (Some a)
  then have "(filter isalpha (lower name), a) \<in> set name_aliases"
    by (rule map_of_SomeD)
  then have "a \<in> {''all_to_all'', ''all_to_allv'', ''all_reduce'', ''all_gather'',
      ''all_gather_base'', ''reduce_scatter'', ''recv''}"
    unfolding name_aliases_def by auto
  moreover have "aliasedName name = a"
    using Some by (simp add: aliasedName_def)
  ultimately show ?thesis
    using aliasedName_canonical by auto
qed

lemma paramToCommName_None: "paramToCommName name None s = (Inr (aliasedName name), s)"
  by (simp add: paramToCommName_def ret_def)

text \<open>
  C7. Alias normalisation is idempotent. With no \<^verbatim>\<open>supported_comms\<close> supplied,
  \<^verbatim>\<open>paramToCommName\<close> returns a name \<open>n\<close> without exiting and without any effect, and
  applied to \<open>n\<close> it returns \<open>n\<close> again.
\<close>

theorem paramToCommName_idempotent:
  "\<exists>n. paramToCommName name None s = (Inr n, s) \<and> paramToCommName n None s = (Inr n, s)"
  by (simp add: paramToCommName_None aliasedName_idem)

theorem paramToCommName_idempotent_witness:
  "paramToCommName ''AllToAll_Base'' None st0 = (Inr ''all_to_allv'', st0)
   \<and> paramToCommName ''all_to_allv'' None st0 = (Inr ''all_to_allv'', st0)"
proof -
  have a: "aliasedName ''AllToAll_Base'' = ''all_to_allv''"
    by (simp add: name_defs)
  obtain n where n: "paramToCommName ''AllToAll_Base'' None st0 = (Inr n, st0)"
      "paramToCommName n None st0 = (Inr n, st0)"
    using paramToCommName_idempotent [of "''AllToAll_Base''" st0] by blast
  from n(1) have "n = ''all_to_allv''"
    by (simp add: paramToCommName_None a)
  with n show ?thesis by simp
qed

section \<open>Algorithmic bandwidth\<close>

text \<open>
  C3. With \<open>numIters = 0\<close>, \<^verbatim>\<open>getAlgBW\<close> returns average time 0 and bandwidth 0; it
  raises for no input (no division by zero); with \<open>numIters \<noteq> 0\<close> and a nonzero average
  time the bandwidth is the data size divided by the average time per iteration.
\<close>

theorem getAlgBW_zero_iters:
  "getAlgBW elapsedTimeNS dataSize 0 = Inr (0, 0)
   \<and> (\<exists>r. getAlgBW elapsedTimeNS dataSize numIters = Inr r)
   \<and> (numIters \<noteq> 0 \<and> elapsedTimeNS / of_int numIters \<noteq> 0 \<longrightarrow>
        getAlgBW elapsedTimeNS dataSize numIters =
          Inr (elapsedTimeNS / of_int numIters,
               of_int dataSize / (elapsedTimeNS / of_int numIters)))"
  by (simp add: getAlgBW_def bindE_def py_truediv_def)

theorem getAlgBW_zero_iters_witness:
  "(4::int) \<noteq> 0 \<and> (100::rat) / of_int 4 \<noteq> 0 \<and> getAlgBW 100 64 4 = Inr (25, 64 / 25)
   \<and> getAlgBW 100 64 0 = Inr (0, 0)"
  using getAlgBW_zero_iters [of 100 64 4] by simp

section \<open>Bus bandwidth\<close>

text \<open>
  C10. \<^verbatim>\<open>getBusBW\<close> never divides by zero: for every collective name, with
  \<^verbatim>\<open>collectiveArgs.world_size = 0\<close> the factor stays 1 and the bus bandwidth returned is
  the algorithmic bandwidth given; for every world size it returns without an error.
\<close>

theorem getBusBW_world_size_zero:
  "fst (getBusBW coll algBW (cArgs\<lparr>world_size := 0\<rparr>) s) = Inr algBW
   \<and> (\<exists>busBW. fst (getBusBW coll algBW cArgs s) = Inr busBW)"
  by (simp add: getBusBW_def andThen_def ret_def lift_def emit_def py_truediv_def)

theorem getBusBW_world_size_zero_witness:
  "fst (getBusBW ''all_reduce'' 10 \<lparr>world_size = 0, src_ranks = []\<rparr> st0) = Inr 10
   \<and> fst (getBusBW ''all_gather'' 10 \<lparr>world_size = 0, src_ranks = []\<rparr> st0) = Inr 10"
  using getBusBW_world_size_zero [of "''all_reduce''" 10 "\<lparr>world_size = 0, src_ranks = []\<rparr>" st0]
    getBusBW_world_size_zero [of "''all_gather''" 10 "\<lparr>world_size = 0, src_ranks = []\<rparr>" st0]
  by simp

section \<open>Message sizes\<close>

declare getSizes_loop.simps [simp del]

lemma getSizes_loop_bounded:
  "0 \<le> numIters \<Longrightarrow> numIters \<le> 100 \<Longrightarrow>
   \<exists>xs s'. getSizes_loop curSize endSize stepFactor stepBytes numIters allSizes s = (Inr xs, s')
     \<and> length xs \<le> length allSizes + nat (101 - numIters)"
proof (induction curSize endSize stepFactor stepBytes numIters allSizes
       rule: getSizes_loop.induct)
  case (1 curSize endSize stepFactor stepBytes numIters allSizes)
  show ?case
  proof (cases "curSize \<le> endSize")
    case False
    then show ?thesis
      by (subst getSizes_loop.simps) (simp add: ret_def)
  next
    case True
    show ?thesis
    proof (cases "numIters + 1 > 100")
      case True
      with \<open>curSize \<le> endSize\<close> "1.prems" show ?thesis
        by (subst getSizes_loop.simps) (simp add: ret_def andThen_def emit_def)
    next
      case False
      with \<open>curSize \<le> endSize\<close> "1.prems" have
        "\<exists>xs s'. getSizes_loop
             (if stepBytes = 0 then curSize * stepFactor else curSize + stepBytes)
             endSize stepFactor stepBytes (numIters + 1) (allSizes @ [curSize]) s = (Inr xs, s')
           \<and> length xs \<le> length (allSizes @ [curSize]) + nat (101 - (numIters + 1))"
        by (intro "1.IH") auto
      then obtain xs s' where r: "getSizes_loop
             (if stepBytes = 0 then curSize * stepFactor else curSize + stepBytes)
             endSize stepFactor stepBytes (numIters + 1) (allSizes @ [curSize]) s = (Inr xs, s')"
           and l: "length xs \<le> length (allSizes @ [curSize]) + nat (101 - (numIters + 1))"
        by blast
      have "getSizes_loop curSize endSize stepFactor stepBytes numIters allSizes s = (Inr xs, s')"
        using \<open>curSize \<le> endSize\<close> False r
        by (subst getSizes_loop.simps) simp
      moreover have "length xs \<le> length allSizes + nat (101 - numIters)"
        using l "1.prems" by simp
      ultimately show ?thesis by blast
    qed
  qed
qed

lemma getSizes_loop_stuck:
  "0 \<le> numIters \<Longrightarrow> numIters \<le> 100 \<Longrightarrow> curSize \<le> endSize \<Longrightarrow>
   fst (getSizes_loop curSize endSize 1 0 numIters allSizes s)
     = Inr (allSizes @ replicate (nat (101 - numIters)) curSize)"
proof (induction curSize endSize "1::int" "0::int" numIters allSizes
       rule: getSizes_loop.induct)
  case (1 curSize endSize numIters allSizes)
  show ?case
  proof (cases "numIters + 1 > 100")
    case True
    with "1.prems" have "numIters = 100" by simp
    with "1.prems" show ?thesis
      by (subst getSizes_loop.simps) (simp add: ret_def andThen_def emit_def)
  next
    case False
    with "1.prems" have ih:
      "fst (getSizes_loop curSize endSize 1 0 (numIters + 1) (allSizes @ [curSize]) s)
         = Inr ((allSizes @ [curSize]) @ replicate (nat (101 - (numIters + 1))) curSize)"
      using "1.hyps" by simp
    have "nat (101 - numIters) = Suc (nat (101 - (numIters + 1)))"
      using False "1.prems" by simp
    then have "replicate (nat (101 - numIters)) curSize
        = curSize # replicate (nat (101 - (numIters + 1))) curSize"
      by simp
    with ih False "1.prems" show ?thesis
      by (subst getSizes_loop.simps) simp
  qed
qed

text \<open>
  C9. \<^verbatim>\<open>getSizes\<close> is total (its loop is defined with a termination proof) and returns,
  on every input, a list of at most 101 sizes; when the size never grows (\<open>stepFactor = 1\<close>,
  \<open>stepBytes = 0\<close>) and \<open>beginSize \<le> endSize\<close>, the loop stops after its 101st iteration
  with 101 copies of the begin size, although the current size never exceeded \<open>endSize\<close>.
\<close>

theorem getSizes_at_most_101:
  "(\<exists>allSizes s'. getSizes b e stepFactor stepBytes s = (Inr allSizes, s')
       \<and> length allSizes \<le> 101)
   \<and> (b \<le> e \<longrightarrow> fst (getSizes b e 1 0 s) = Inr (replicate 101 b))"
proof
  show "\<exists>allSizes s'. getSizes b e stepFactor stepBytes s = (Inr allSizes, s')
       \<and> length allSizes \<le> 101"
    using getSizes_loop_bounded [of 0 b e stepFactor stepBytes "[]" s]
    by (simp add: getSizes_def)
  show "b \<le> e \<longrightarrow> fst (getSizes b e 1 0 s) = Inr (replicate 101 b)"
    using getSizes_loop_stuck [of 0 b e "[]" s]
    by (simp add: getSizes_def)
qed

theorem getSizes_at_most_101_witness:
  "(3::int) \<le> 8 \<and> fst (getSizes 3 8 1 0 st0) = Inr (replicate 101 3)"
  using getSizes_at_most_101 [of 3 8 1 0 st0] by simp

section \<open>Quantisation arguments\<close>

text \<open>
  C8. For a nonzero embedding dimension (the command line admits 32, 64, 128 and 256),
  \<^verbatim>\<open>checkQuantArgs\<close> raises \<^verbatim>\<open>NotImplementedError\<close> exactly when the collective is outside
  all_to_all, all_to_allv, reduce, all_reduce, or it is all_to_all or all_to_allv and the
  blocking flag is not 1, or the dtype is not float32; otherwise it returns. It creates no
  object and calls no allocation primitive.
\<close>

theorem checkQuantArgs_rejects:
  assumes "embedding_dim \<noteq> 0"
  shows "((\<exists>m. fst (checkQuantArgs coll dt bSize embedding_dim blocking s)
                 = Inl (NotImplementedError m))
            \<longleftrightarrow> (coll \<notin> {''all_to_all'', ''all_to_allv'', ''reduce'', ''all_reduce''}
                 \<or> (coll \<in> {''all_to_all'', ''all_to_allv''} \<and> blocking \<noteq> 1)
                 \<or> dt \<noteq> Float32))
         \<and> (fst (checkQuantArgs coll dt bSize embedding_dim blocking s) = Inr ()
            \<longleftrightarrow> \<not> (coll \<notin> {''all_to_all'', ''all_to_allv'', ''reduce'', ''all_reduce''}
                 \<or> (coll \<in> {''all_to_all'', ''all_to_allv''} \<and> blocking \<noteq> 1)
                 \<or> dt \<noteq> Float32))
         \<and> next_id (snd (checkQuantArgs coll dt bSize embedding_dim blocking s)) = next_id s
         \<and> filter is_alloc (events (snd (checkQuantArgs coll dt bSize embedding_dim blocking s)))
             = filter is_alloc (events s)"
  using assms
  by (auto simp: checkQuantArgs_def andThen_def ret_def raise_def lift_def emit_def py_mod_def
      is_alloc_def)

theorem checkQuantArgs_rejects_witness:
  "(32::int) \<noteq> 0
   \<and> fst (checkQuantArgs ''all_to_all'' Float32 128 32 1 st0) = Inr ()
   \<and> (\<exists>m. fst (checkQuantArgs ''all_to_all'' Float32 128 32 0 st0) = Inl (NotImplementedError m))
   \<and> (\<exists>m. fst (checkQuantArgs ''all_gather'' Float32 128 32 1 st0) = Inl (NotImplementedError m))
   \<and> (\<exists>m. fst (checkQuantArgs ''all_reduce'' Half 128 32 1 st0) = Inl (NotImplementedError m))"
proof -
  have h: "(32::int) \<noteq> 0" by simp
  show ?thesis
    using checkQuantArgs_rejects [OF h, of "''all_to_all''" Float32 128 1 st0]
      checkQuantArgs_rejects [OF h, of "''all_to_all''" Float32 128 0 st0]
      checkQuantArgs_rejects [OF h, of "''all_gather''" Float32 128 1 st0]
      checkQuantArgs_rejects [OF h, of "''all_reduce''" Half 128 1 st0]
    by simp
qed

section \<open>Data validation\<close>

lemma check_vals_ok:
  "check_vals eq mk expRes index vs = Inr () \<longleftrightarrow> (\<forall>v\<in>set vs. eq v expRes)"
  by (induction vs arbitrary: index) auto

lemma check_vals_first:
  "\<exists>v\<in>set vs. \<not> eq v expRes \<Longrightarrow>
   \<exists>j<length vs. \<not> eq (vs ! j) expRes \<and> (\<forall>k<j. eq (vs ! k) expRes)
      \<and> check_vals eq mk expRes index vs = Inl (mk (index + j) (vs ! j))"
proof (induction vs arbitrary: index)
  case Nil
  then show ?case by simp
next
  case (Cons a vs)
  show ?case
  proof (cases "eq a expRes")
    case False
    then have "\<not> eq ((a # vs) ! 0) expRes \<and> (\<forall>k<0. eq ((a # vs) ! k) expRes)
      \<and> check_vals eq mk expRes index (a # vs) = Inl (mk (index + 0) ((a # vs) ! 0))"
      by simp
    then show ?thesis by blast
  next
    case True
    with Cons.prems have "\<exists>v\<in>set vs. \<not> eq v expRes" by auto
    from Cons.IH [OF this, of "Suc index"] obtain j where j: "j < length vs"
      "\<not> eq (vs ! j) expRes" "\<forall>k<j. eq (vs ! k) expRes"
      "check_vals eq mk expRes (Suc index) vs = Inl (mk (Suc index + j) (vs ! j))"
      by blast
    have "\<forall>k<Suc j. eq ((a # vs) ! k) expRes"
      using True j(3) by (simp add: nth_Cons split: nat.split)
    with j True have "Suc j < length (a # vs) \<and> \<not> eq ((a # vs) ! Suc j) expRes
      \<and> (\<forall>k<Suc j. eq ((a # vs) ! k) expRes)
      \<and> check_vals eq mk expRes index (a # vs) = Inl (mk (index + Suc j) ((a # vs) ! Suc j))"
      by simp
    then show ?thesis by blast
  qed
qed

lemma check_tensor_ok:
  "check_tensor torch_eq mk expRes t = Inr ()
     \<longleftrightarrow> (\<forall>v\<in>set (t_elems t). torch_eq (t_dtype t) v expRes)"
  by (simp add: check_tensor_def check_vals_ok list_all_iff)

lemma check_tensor_first:
  assumes "\<exists>v\<in>set (t_elems t). \<not> torch_eq (t_dtype t) v expRes"
  shows "\<exists>j<length (t_elems t). \<not> torch_eq (t_dtype t) (t_elems t ! j) expRes
      \<and> (\<forall>k<j. torch_eq (t_dtype t) (t_elems t ! k) expRes)
      \<and> check_tensor torch_eq mk expRes t = Inl (mk j (t_elems t ! j))"
proof -
  have "\<not> list_all (\<lambda>v. torch_eq (t_dtype t) v expRes) (t_elems t)"
    using assms by (simp add: list_all_iff)
  then have "check_tensor torch_eq mk expRes t
      = check_vals (torch_eq (t_dtype t)) mk expRes 0 (t_elems t)"
    by (simp add: check_tensor_def)
  moreover have "\<exists>j<length (t_elems t). \<not> torch_eq (t_dtype t) (t_elems t ! j) expRes
      \<and> (\<forall>k<j. torch_eq (t_dtype t) (t_elems t ! k) expRes)
      \<and> check_vals (torch_eq (t_dtype t)) mk expRes 0 (t_elems t)
            = Inl (mk (0 + j) (t_elems t ! j))"
    using assms
    by (rule check_vals_first
        [where eq = "torch_eq (t_dtype t)" and vs = "t_elems t" and expRes = expRes
           and mk = mk and index = 0])
  ultimately show ?thesis by simp
qed

lemma dcheck_reduction_eq:
  assumes "collective commsParams \<in> {''all_reduce'', ''reduce_scatter'', ''reduce_scatter_base''}
           \<or> (collective commsParams = ''reduce''
               \<and> get_global_rank self = srcOrDst commsParams)"
    and "expRes = (if t_dtype t = Bool then initVal self
                   else world_size (collectiveArgs self) * initVal self)"
  shows "dcheck torch_eq self commsParams curSize (One t) =
           check_tensor torch_eq
             (\<lambda>index val. ValueError (WrongValue curSize (collective commsParams) None index val
                 expRes (One t)))
             expRes t"
  using assms by (auto simp: dcheck_def bindE_def)

text \<open>
  C4, as the code has it. For all_reduce, reduce_scatter, reduce_scatter_base, and for
  reduce on the root rank, the expected value is \<open>world_size * initVal\<close>, or \<open>initVal\<close>
  when the dtype is boolean. \<^verbatim>\<open>dcheck\<close> accepts a tensor exactly when every element
  compares equal to the expected value under the tensor library's comparison in the
  tensor's dtype; otherwise it raises a \<^verbatim>\<open>ValueError\<close> that carries the first index whose
  element does not compare equal, the element found there, the expected value and the
  tensor.
\<close>

theorem dcheck_reduction:
  assumes "collective commsParams \<in> {''all_reduce'', ''reduce_scatter'', ''reduce_scatter_base''}
           \<or> (collective commsParams = ''reduce''
               \<and> get_global_rank self = srcOrDst commsParams)"
    and "expRes = (if t_dtype t = Bool then initVal self
                   else world_size (collectiveArgs self) * initVal self)"
  shows "(dcheck torch_eq self commsParams curSize (One t) = Inr ()
            \<longleftrightarrow> (\<forall>v\<in>set (t_elems t). torch_eq (t_dtype t) v expRes))
         \<and> ((\<exists>v\<in>set (t_elems t). \<not> torch_eq (t_dtype t) v expRes) \<longrightarrow>
              (\<exists>index<length (t_elems t). \<not> torch_eq (t_dtype t) (t_elems t ! index) expRes
                 \<and> (\<forall>k<index. torch_eq (t_dtype t) (t_elems t ! k) expRes)
                 \<and> dcheck torch_eq self commsParams curSize (One t) =
                     Inl (ValueError (WrongValue curSize (collective commsParams) None index
                            (t_elems t ! index) expRes (One t)))))"
proof -
  have e: "dcheck torch_eq self commsParams curSize (One t) =
           check_tensor torch_eq
             (\<lambda>index val. ValueError (WrongValue curSize (collective commsParams) None index val
                 expRes (One t)))
             expRes t"
    by (rule dcheck_reduction_eq [OF assms])
  show ?thesis
  proof (intro conjI impI)
    show "dcheck torch_eq self commsParams curSize (One t) = Inr ()
            \<longleftrightarrow> (\<forall>v\<in>set (t_elems t). torch_eq (t_dtype t) v expRes)"
      unfolding e by (rule check_tensor_ok)
    assume "\<exists>v\<in>set (t_elems t). \<not> torch_eq (t_dtype t) v expRes"
    then have "\<exists>j<length (t_elems t). \<not> torch_eq (t_dtype t) (t_elems t ! j) expRes
      \<and> (\<forall>k<j. torch_eq (t_dtype t) (t_elems t ! k) expRes)
      \<and> check_tensor torch_eq
            (\<lambda>index val. ValueError (WrongValue curSize (collective commsParams) None index val
                 expRes (One t))) expRes t
          = Inl (ValueError (WrongValue curSize (collective commsParams) None j
                   (t_elems t ! j) expRes (One t)))"
      by (rule check_tensor_first
          [where torch_eq = torch_eq and t = t and expRes = expRes
             and mk = "\<lambda>index val. ValueError (WrongValue curSize (collective commsParams) None
                 index val expRes (One t))"])
    then show "\<exists>index<length (t_elems t). \<not> torch_eq (t_dtype t) (t_elems t ! index) expRes
                 \<and> (\<forall>k<index. torch_eq (t_dtype t) (t_elems t ! k) expRes)
                 \<and> dcheck torch_eq self commsParams curSize (One t) =
                     Inl (ValueError (WrongValue curSize (collective commsParams) None index
                            (t_elems t ! index) expRes (One t)))"
      unfolding e .
  qed
qed

theorem dcheck_reduction_witness:
  "collective (params_of ''all_reduce'') = ''all_reduce''
   \<and> dcheck low8_eq bench2 (params_of ''all_reduce'') 8
        (One \<lparr>t_dtype = Float32, t_elems = [2, 2]\<rparr>) = Inr ()
   \<and> dcheck low8_eq bench2 (params_of ''all_reduce'') 8
        (One \<lparr>t_dtype = Float32, t_elems = [2, 1]\<rparr>) \<noteq> Inr ()
   \<and> dcheck low8_eq bench2 (params_of ''all_reduce'') 8
        (One \<lparr>t_dtype = Bool, t_elems = [1, 1]\<rparr>) = Inr ()"
proof -
  have c: "collective (params_of ''all_reduce'') = ''all_reduce''"
    by (simp add: params_of_def)
  then have h: "collective (params_of ''all_reduce'')
                  \<in> {''all_reduce'', ''reduce_scatter'', ''reduce_scatter_base''}
           \<or> (collective (params_of ''all_reduce'') = ''reduce''
               \<and> get_global_rank bench2 = srcOrDst (params_of ''all_reduce''))"
    by simp
  have e: "(2::int) = (if t_dtype \<lparr>t_dtype = Float32, t_elems = [2, 2]\<rparr> = Bool
                       then initVal bench2
                       else world_size (collectiveArgs bench2) * initVal bench2)"
     "(2::int) = (if t_dtype \<lparr>t_dtype = Float32, t_elems = [2, 1]\<rparr> = Bool
                       then initVal bench2
                       else world_size (collectiveArgs bench2) * initVal bench2)"
     "(1::int) = (if t_dtype \<lparr>t_dtype = Bool, t_elems = [1, 1]\<rparr> = Bool
                       then initVal bench2
                       else world_size (collectiveArgs bench2) * initVal bench2)"
    by (simp_all add: bench2_def)
  show ?thesis
    using c dcheck_reduction [OF h e(1), of low8_eq 8] dcheck_reduction [OF h e(2), of low8_eq 8]
      dcheck_reduction [OF h e(3), of low8_eq 8]
    by (simp add: low8_eq_def)
qed

text \<open>
  C4, as stated, fails: the comparison is made in the tensor's dtype. On 258 ranks with
  \<open>initVal = 1\<close> the expected value is 258; a uint8 tensor whose elements are 2, the low
  eight bits of 258, is accepted by \<^verbatim>\<open>dcheck\<close> although no element equals 258.
\<close>

theorem dcheck_uint8_counterexample:
  "world_size (collectiveArgs bench258) * initVal bench258 = 258
   \<and> (2::rat) \<noteq> of_int (world_size (collectiveArgs bench258) * initVal bench258)
   \<and> dcheck low8_eq bench258 (params_of ''all_reduce'') 258
        (One \<lparr>t_dtype = UInt8, t_elems = [2, 2]\<rparr>) = Inr ()"
  by (simp add: dcheck_def bindE_def check_tensor_def params_of_def bench258_def low8_eq_def)

text \<open>
  C5. For incast and gather on a rank other than the configured root, and for multicast on
  a rank that is not in the destination ranks, \<^verbatim>\<open>dcheck\<close> returns without raising,
  whatever tensor or list of tensors it is given and whatever the library's comparison is.
\<close>

theorem dcheck_skipped_off_root:
  assumes "(collective commsParams \<in> {''incast'', ''gather''}
              \<and> get_global_rank self \<noteq> srcOrDst commsParams)
           \<or> (collective commsParams = ''multicast''
              \<and> get_global_rank self \<notin> set (dst_ranks commsParams))"
  shows "dcheck torch_eq self commsParams curSize tensor = Inr ()"
  using assms by (auto simp: dcheck_def bindE_def)

theorem dcheck_skipped_off_root_witness:
  "collective ((params_of ''gather'')\<lparr>srcOrDst := 1\<rparr>) \<in> {''incast'', ''gather''}
   \<and> get_global_rank bench2 \<noteq> srcOrDst ((params_of ''gather'')\<lparr>srcOrDst := 1\<rparr>)
   \<and> dcheck low8_eq bench2 ((params_of ''gather'')\<lparr>srcOrDst := 1\<rparr>) 8
        (Many [\<lparr>t_dtype = Float32, t_elems = [7, 0]\<rparr>]) = Inr ()"
proof -
  have h: "collective ((params_of ''gather'')\<lparr>srcOrDst := 1\<rparr>) \<in> {''incast'', ''gather''}
      \<and> get_global_rank bench2 \<noteq> srcOrDst ((params_of ''gather'')\<lparr>srcOrDst := 1\<rparr>)"
    by (simp add: params_of_def bench2_def)
  then have "(collective ((params_of ''gather'')\<lparr>srcOrDst := 1\<rparr>) \<in> {''incast'', ''gather''}
      \<and> get_global_rank bench2 \<noteq> srcOrDst ((params_of ''gather'')\<lparr>srcOrDst := 1\<rparr>))
    \<or> (collective ((params_of ''gather'')\<lparr>srcOrDst := 1\<rparr>) = ''multicast''
      \<and> get_global_rank bench2 \<notin> set (dst_ranks ((params_of ''gather'')\<lparr>srcOrDst := 1\<rparr>)))"
    by (rule disjI1)
  from dcheck_skipped_off_root
    [OF this, of low8_eq 8 "Many [\<lparr>t_dtype = Float32, t_elems = [7, 0]\<rparr>]"] h
  show ?thesis by simp
qed

section \<open>Tensor staging\<close>

lemma paramToCommName_unsupported:
  "aliasedName name \<notin> set sc \<Longrightarrow>
   paramToCommName name (Some sc) s =
     (Inl (SystemExit (Some (UnsupportedComm name sc))),
      s\<lparr>events := events s @ [LogError (UnsupportedComm name sc)]\<rparr>)"
  by (simp add: paramToCommName_def gracefulExit_def andThen_def emit_def raise_def ret_def)

lemma paramToCommName_supported:
  "aliasedName name \<in> set sc \<Longrightarrow> paramToCommName name (Some sc) s = (Inr (aliasedName name), s)"
  by (simp add: paramToCommName_def ret_def)

text \<open>
  C1. When the operation name (\<^verbatim>\<open>curComm.comms\<close>, or \<^verbatim>\<open>commsParams.collective\<close> if that
  is \<^verbatim>\<open>None\<close>), after alias lookup, is not among the backend's supported collectives,
  \<^verbatim>\<open>prepComm\<close> ends in \<^verbatim>\<open>SystemExit\<close> with the message naming the operation and the
  supported set; the only effect before the exit is the logged error: no object has been
  created and no allocation primitive has been called.
\<close>

theorem prepComm_unsupported_exits:
  assumes "name = (case comms curComm of Some c \<Rightarrow> c | None \<Rightarrow> collective commsParams)"
    and "aliasedName name \<notin> set (collectiveFunc self)"
  shows "prepComm self curComm commsParams allocate s =
           (Inl (SystemExit (Some (UnsupportedComm name (collectiveFunc self)))),
            s\<lparr>events := events s @ [LogError (UnsupportedComm name (collectiveFunc self))]\<rparr>)
         \<and> filter is_alloc (events (snd (prepComm self curComm commsParams allocate s)))
             = filter is_alloc (events s)
         \<and> next_id (snd (prepComm self curComm commsParams allocate s)) = next_id s"
proof -
  have "prepComm self curComm commsParams allocate s =
           (Inl (SystemExit (Some (UnsupportedComm name (collectiveFunc self)))),
            s\<lparr>events := events s @ [LogError (UnsupportedComm name (collectiveFunc self))]\<rparr>)"
    using assms(2) unfolding prepComm_def assms(1) [symmetric]
    by (simp add: andThen_def paramToCommName_unsupported)
  then show ?thesis by (simp add: is_alloc_def)
qed

theorem prepComm_unsupported_exits_witness:
  "aliasedName ''all-summon'' \<notin> set (collectiveFunc bench2)
   \<and> prepComm bench2 (comm_of ''all-summon'' 8) (params_of ''all_reduce'') True st0 =
       (Inl (SystemExit (Some (UnsupportedComm ''all-summon'' base_collectiveFunc))),
        st0\<lparr>events := [LogError (UnsupportedComm ''all-summon'' base_collectiveFunc)]\<rparr>)"
proof -
  have a: "aliasedName ''all-summon'' = ''all-summon''"
    by (simp add: name_defs)
  have n: "aliasedName ''all-summon'' \<notin> set (collectiveFunc bench2)"
    unfolding a by (simp add: bench2_def base_collectiveFunc_def)
  have c: "''all-summon'' = (case comms (comm_of ''all-summon'' 8) of Some c \<Rightarrow> c
                | None \<Rightarrow> collective (params_of ''all_reduce''))"
    by (simp add: comm_of_def)
  from prepComm_unsupported_exits [OF c n, of True st0] n show ?thesis
    by (simp add: bench2_def st0_def)
qed

text \<open>
  C6, as the code has it. For a supported operation with no entry in the dispatch table,
  other than wait and barrier, \<^verbatim>\<open>prepComm\<close> returns one object as both input and output
  buffer, having called an allocation primitive once when \<open>allocate\<close> holds and never
  otherwise. For wait and barrier it returns two new empty lists, which are different
  objects, and allocates nothing.
\<close>

theorem prepComm_in_place:
  assumes "commOp = aliasedName (case comms curComm of Some c \<Rightarrow> c
                                 | None \<Rightarrow> collective commsParams)"
    and "commOp \<in> set (collectiveFunc self)"
    and "map_of dispatchDict commOp = None"
  shows "(commOp \<notin> {''wait'', ''barrier''} \<longrightarrow>
            (\<exists>buf s'. prepComm self curComm commsParams allocate s = (Inr (buf, buf), s')
               \<and> length (filter is_alloc (events s'))
                   = length (filter is_alloc (events s)) + (if allocate then 1 else 0)))
         \<and> (commOp \<in> {''wait'', ''barrier''} \<longrightarrow>
              prepComm self curComm commsParams allocate s =
                (Inr (ListObj (next_id s) [], ListObj (Suc (next_id s)) []),
                 s\<lparr>next_id := Suc (Suc (next_id s))\<rparr>))"
proof -
  have p: "paramToCommName (case comms curComm of Some c \<Rightarrow> c | None \<Rightarrow> collective commsParams)
             (Some (collectiveFunc self)) s = (Inr commOp, s)"
    using assms(1,2) by (simp add: paramToCommName_supported)
  show ?thesis
    using assms(3)
    by (simp add: prepComm_def andThen_def p ret_def new_list_def fresh_def alloc_ones_def
        alloc_random_def backend_alloc_def emit_def is_alloc_def Let_def)
qed

theorem prepComm_in_place_witness:
  "''all_reduce'' \<in> set (collectiveFunc bench2)
   \<and> map_of dispatchDict ''all_reduce'' = None
   \<and> prepComm bench2 (comm_of ''allreduce'' 8) (params_of ''all_reduce'') True st0 =
       (Inr (TensorObj 1, TensorObj 1),
        st0\<lparr>next_id := 2, events := [Alloc Alloc_random 1 (Dims [8]) ''cpu'' Float32 64]\<rparr>)"
proof -
  have a: "aliasedName ''allreduce'' = ''all_reduce''"
    by (simp add: name_defs)
  have m: "''all_reduce'' \<in> set (collectiveFunc bench2)"
    by (simp add: bench2_def base_collectiveFunc_def)
  have d: "map_of dispatchDict ''all_reduce'' = None"
    by (simp add: dispatchDict_def)
  have c: "''all_reduce'' = aliasedName (case comms (comm_of ''allreduce'' 8) of Some c \<Rightarrow> c
                | None \<Rightarrow> collective (params_of ''all_reduce''))"
    by (simp add: comm_of_def a)
  have p: "paramToCommName ''allreduce'' (Some (collectiveFunc bench2)) st0
             = (Inr ''all_reduce'', st0)"
    using paramToCommName_supported [of "''allreduce''" "collectiveFunc bench2" st0] m a by simp
  have r: "prepComm bench2 (comm_of ''allreduce'' 8) (params_of ''all_reduce'') True st0 =
       (Inr (TensorObj 1, TensorObj 1),
        st0\<lparr>next_id := 2, events := [Alloc Alloc_random 1 (Dims [8]) ''cpu'' Float32 64]\<rparr>)"
    apply (simp add: prepComm_def comm_of_def andThen_def p d)
    apply (simp add: params_of_def bench2_def andThen_def ret_def new_list_def
        fresh_def st0_def alloc_random_def backend_alloc_def emit_def Let_def)
    done
  from prepComm_in_place [OF c m d, of True st0] m d r show ?thesis by simp
qed

text \<open>
  C6, as stated, fails for barrier: it is supported and has no entry in the dispatch table,
  and \<^verbatim>\<open>prepComm\<close> returns two empty lists with different identities.
\<close>

theorem prepComm_barrier_counterexample:
  "''barrier'' \<in> set (collectiveFunc bench2)
   \<and> map_of dispatchDict ''barrier'' = None
   \<and> prepComm bench2 (comm_of ''barrier'' 8) (params_of ''barrier'') True st0 =
       (Inr (ListObj 0 [], ListObj 1 []), st0\<lparr>next_id := 2\<rparr>)
   \<and> obj_id (ListObj 0 []) \<noteq> obj_id (ListObj 1 [])"
proof -
  have a: "aliasedName ''barrier'' = ''barrier''"
    by (simp add: name_defs)
  have m: "''barrier'' \<in> set (collectiveFunc bench2)"
    by (simp add: bench2_def base_collectiveFunc_def)
  have p: "paramToCommName ''barrier'' (Some (collectiveFunc bench2)) st0 = (Inr ''barrier'', st0)"
    using paramToCommName_supported [of "''barrier''" "collectiveFunc bench2" st0] m a by simp
  have d: "map_of dispatchDict ''barrier'' = None"
    by (simp add: dispatchDict_def)
  have "prepComm bench2 (comm_of ''barrier'' 8) (params_of ''barrier'') True st0 =
       (Inr (ListObj 0 [], ListObj 1 []), st0\<lparr>next_id := 2\<rparr>)"
    apply (simp add: prepComm_def comm_of_def andThen_def p)
    apply (simp add: ret_def new_list_def fresh_def st0_def andThen_def)
    done
  with m d show ?thesis by simp
qed

section \<open>Staging of split and flat collectives\<close>

lemma sw_ret: "stages_within S (ret x)"
  by (simp add: stages_within_def ret_def)

lemma sw_lift: "stages_within S (lift (Inr x))"
  by (simp add: stages_within_def lift_def)

lemma sw_fresh: "stages_within S fresh"
  by (simp add: stages_within_def fresh_def)

lemma sw_set_split: "stages_within S (set_opTensor_split v)" "stages_within S (set_ipTensor_split v)"
  by (simp_all add: stages_within_def set_opTensor_split_def set_ipTensor_split_def)

lemma sw_andThen:
  assumes "stages_within S m" and "\<And>x. stages_within S (f x)"
  shows "stages_within S (andThen m f)"
  unfolding stages_within_def
proof
  fix s
  from assms(1) obtain x n1 where m: "fst (m s) = Inr x" "events (snd (m s)) = events s @ n1"
      "list_all (sized_in S) n1"
    unfolding stages_within_def by blast
  from assms(2) [of x] obtain y n2 where f: "fst (f x (snd (m s))) = Inr y"
      "events (snd (f x (snd (m s)))) = events (snd (m s)) @ n2" "list_all (sized_in S) n2"
    unfolding stages_within_def by blast
  have "andThen m f s = f x (snd (m s))"
    using m(1) by (cases "m s") (simp add: andThen_def)
  with m f have "fst (andThen m f s) = Inr y \<and> events (snd (andThen m f s)) = events s @ (n1 @ n2)
      \<and> list_all (sized_in S) (n1 @ n2)"
    by simp
  then show "\<exists>x new. fst (andThen m f s) = Inr x \<and> events (snd (andThen m f s)) = events s @ new
      \<and> list_all (sized_in S) new"
    by blast
qed

lemma sw_new_list: "stages_within S new_list"
  unfolding new_list_def by (intro sw_andThen sw_fresh sw_ret)

lemma sw_emit_alloc: "sz \<in> S \<Longrightarrow> stages_within S (emit (Alloc f i sz dev dt sc))"
  by (simp add: stages_within_def emit_def sized_in_def)

lemma sw_alloc:
  "sz \<in> S \<Longrightarrow> stages_within S (alloc_ones sz dev dt sc)"
  "sz \<in> S \<Longrightarrow> stages_within S (alloc_random sz dev dt sc)"
  unfolding alloc_ones_def alloc_random_def backend_alloc_def
  by (intro sw_andThen sw_fresh sw_ret sw_emit_alloc; assumption)+

lemma sw_floordiv:
  assumes "ws \<noteq> 0" and "stages_within S (f (n div ws))"
  shows "stages_within S (andThen (lift (py_floordiv n ws)) f)"
proof -
  have "andThen (lift (py_floordiv n ws)) f = f (n div ws)"
    using assms(1) by (simp add: andThen_def lift_def py_floordiv_def)
  with assms(2) show ?thesis by simp
qed

lemma sw_append_allocs:
  "stages_within S body \<Longrightarrow> stages_within S (append_allocs k body xs)"
proof (induction k arbitrary: xs)
  case 0
  then show ?case by (simp add: sw_ret)
next
  case (Suc k)
  then show ?case by (simp add: sw_andThen)
qed

lemma sw_if:
  "(c \<Longrightarrow> stages_within S a) \<Longrightarrow> (\<not> c \<Longrightarrow> stages_within S b)
   \<Longrightarrow> stages_within S (if c then a else b)"
  by simp

lemmas sw_intros = sw_andThen sw_new_list sw_ret sw_set_split sw_floordiv sw_append_allocs
  sw_alloc sw_if

lemma sw_prep:
  assumes "ws \<noteq> 0"
  shows "stages_within (staged_sizes nIn nOut ws)
           (prep_all_to_allv self ip curComm commsParams nIn nOut ws dev dt sc allocate)"
    and "stages_within (staged_sizes nIn nOut ws)
           (prep_all_to_all self ip curComm commsParams nIn nOut ws dev dt sc allocate)"
    and "stages_within (staged_sizes nIn nOut ws)
           (prep_all_gather self ip curComm commsParams nIn nOut ws dev dt sc allocate)"
    and "stages_within (staged_sizes nIn nOut ws)
           (prep_all_gather_base self ip curComm commsParams nIn nOut ws dev dt sc allocate)"
    and "stages_within (staged_sizes nIn nOut ws)
           (prep_reduce_scatter self ip curComm commsParams nIn nOut ws dev dt sc allocate)"
    and "stages_within (staged_sizes nIn nOut ws)
           (prep_reduce_scatter_base self ip curComm commsParams nIn nOut ws dev dt sc allocate)"
  unfolding prep_all_to_allv_def prep_all_to_all_def prep_all_gather_def
    prep_all_gather_base_def prep_reduce_scatter_def prep_reduce_scatter_base_def
  by (intro sw_intros assms; simp add: staged_sizes_def)+

lemma prepComm_dispatch:
  assumes "commOp = aliasedName (case comms curComm of Some c \<Rightarrow> c
                                 | None \<Rightarrow> collective commsParams)"
    and "commOp \<in> set (collectiveFunc self)"
    and "commOp \<notin> {''wait'', ''barrier''}"
    and "map_of dispatchDict commOp = Some function_to_call"
  shows "prepComm self curComm commsParams allocate s =
     andThen new_list (\<lambda>opTensor0.
       andThen
         (if allocate
          then (if dcheck_c commsParams = 1
                then alloc_ones (Dims [inMsgSize curComm]) (device commsParams)
                       (dtype commsParams) (initVal self)
                else alloc_random (Dims [inMsgSize curComm]) (device commsParams)
                       (dtype commsParams) (outMsgSize curComm * outMsgSize curComm))
          else new_list) (\<lambda>ipTensor.
       function_to_call self ipTensor curComm commsParams (inMsgSize curComm)
         (outMsgSize curComm) (world_size (collectiveArgs self)) (device commsParams)
         (dtype commsParams) (outMsgSize curComm * outMsgSize curComm) allocate)) s"
proof -
  have p: "paramToCommName (case comms curComm of Some c \<Rightarrow> c | None \<Rightarrow> collective commsParams)
             (Some (collectiveFunc self)) s = (Inr commOp, s)"
    using assms(1,2) by (simp add: paramToCommName_supported)
  have "prepComm self curComm commsParams allocate s =
      (if commOp \<in> set [''wait'', ''barrier'']
       then andThen new_list (\<lambda>a. andThen new_list (\<lambda>b. ret (a, b)))
       else
         (let numElementsIn = inMsgSize curComm;
              numElementsOut = outMsgSize curComm;
              ws = world_size (collectiveArgs self);
              dt = dtype commsParams;
              curDevice = device commsParams;
              scaleFactor = numElementsOut * numElementsOut
          in andThen new_list (\<lambda>opTensor0.
             andThen
               (if allocate
                then (if dcheck_c commsParams = 1
                      then alloc_ones (Dims [numElementsIn]) curDevice dt (initVal self)
                      else alloc_random (Dims [numElementsIn]) curDevice dt scaleFactor)
                else new_list) (\<lambda>ipTensor.
             case map_of dispatchDict commOp of
               Some function_to_call \<Rightarrow>
                 function_to_call self ipTensor curComm commsParams numElementsIn
                   numElementsOut ws curDevice dt scaleFactor allocate
             | None \<Rightarrow> ret (ipTensor, ipTensor))))) s"
    unfolding prepComm_def by (subst andThen_def) (simp add: p)
  also have "\<dots> = andThen new_list (\<lambda>opTensor0.
       andThen
         (if allocate
          then (if dcheck_c commsParams = 1
                then alloc_ones (Dims [inMsgSize curComm]) (device commsParams)
                       (dtype commsParams) (initVal self)
                else alloc_random (Dims [inMsgSize curComm]) (device commsParams)
                       (dtype commsParams) (outMsgSize curComm * outMsgSize curComm))
          else new_list) (\<lambda>ipTensor.
       function_to_call self ipTensor curComm commsParams (inMsgSize curComm)
         (outMsgSize curComm) (world_size (collectiveArgs self)) (device commsParams)
         (dtype commsParams) (outMsgSize curComm * outMsgSize curComm) allocate)) s"
    using assms(3,4) by (simp add: Let_def)
  finally show ?thesis .
qed

lemma dispatch_split_flat:
  assumes "commOp \<in> {''all_to_all'', ''all_to_allv'', ''all_gather'', ''all_gather_base'',
            ''reduce_scatter'', ''reduce_scatter_base'', ''gather'', ''scatter''}"
  shows "commOp \<notin> {''wait'', ''barrier''}
     \<and> (\<exists>f. map_of dispatchDict commOp = Some f
           \<and> f \<in> {prep_all_to_all, prep_all_to_allv, prep_all_gather, prep_all_gather_base,
                   prep_reduce_scatter, prep_reduce_scatter_base})"
  using assms unfolding dispatchDict_def by (elim insertE emptyE) simp_all

lemma rat_div_less:
  assumes "0 < (e::int)"
  shows "(of_int b / of_int e < (of_int w :: rat)) \<longleftrightarrow> b < w * e"
proof -
  have "(of_int b / of_int e < (of_int w :: rat)) \<longleftrightarrow> (of_int b :: rat) < of_int w * of_int e"
    using assms by (simp add: pos_divide_less_eq)
  also have "\<dots> \<longleftrightarrow> (of_int b :: rat) < of_int (w * e)" by simp
  also have "\<dots> \<longleftrightarrow> b < w * e" by (simp only: of_int_less_iff)
  finally show ?thesis .
qed

lemma rat_div_div_less:
  assumes "0 < (e::int)" and "0 < w"
  shows "(of_int b / of_int e / of_int w < (of_int d :: rat)) \<longleftrightarrow> b < d * w * e"
proof -
  have "(of_int b / of_int e / of_int w < (of_int d :: rat))
          \<longleftrightarrow> (of_int b / of_int e :: rat) < of_int d * of_int w"
    by (rule pos_divide_less_eq) (simp add: assms(2))
  also have "\<dots> \<longleftrightarrow> (of_int b / of_int e :: rat) < of_int (d * w)" by simp
  also have "\<dots> \<longleftrightarrow> b < d * w * e" by (rule rat_div_less [OF assms(1)])
  finally show ?thesis .
qed

lemma fixBeginSize_six:
  assumes six: "collective p \<in> {''all_to_all'', ''all_to_allv'', ''all_gather'',
                   ''all_gather_base'', ''gather'', ''reduce_scatter_base''}"
    and epos: "0 < element_size p" and wpos: "0 < ws"
  shows "fixBeginSize p ws =
     Inr (p\<lparr>beginSize :=
        (let b1 = (if beginSize p < ws * element_size p then ws * element_size p
                   else beginSize p)
         in if bitwidth p < 32 \<and> b1 < quant_a2a_embedding_dim p * ws * element_size p
            then quant_a2a_embedding_dim p * ws * element_size p else b1)\<rparr>)"
proof -
  let ?e = "element_size p" and ?b = "beginSize p" and ?d = "quant_a2a_embedding_dim p"
  have e0: "?e \<noteq> 0" and w0: "ws \<noteq> 0" using epos wpos by simp_all
  note q1 = rat_div_less [OF epos, of ?b ws]
  show ?thesis
  proof (cases "?b < ws * ?e")
    case raise1: True
    then have c1: "of_int ?b / of_int ?e < (of_int ws :: rat)" using q1 by simp
    note q2 = rat_div_div_less [OF epos wpos, of "ws * ?e" ?d]
    show ?thesis
    proof (cases "bitwidth p < 32 \<and> ws * ?e < ?d * ws * ?e")
      case True
      then have c2: "of_int (ws * ?e) / of_int ?e / of_int ws < (of_int ?d :: rat)"
        using q2 by simp
      from six e0 w0 c1 c2 True raise1 show ?thesis
        by (simp add: fixBeginSize_def bindE_def py_truediv_def Let_def)
    next
      case False
      then have c2: "\<not> (bitwidth p < 32
          \<and> of_int (ws * ?e) / of_int ?e / of_int ws < (of_int ?d :: rat))"
        using q2 by simp
      from six e0 w0 c1 c2 False raise1 show ?thesis
        by (auto simp add: fixBeginSize_def bindE_def py_truediv_def Let_def)
    qed
  next
    case keep1: False
    then have c1: "\<not> of_int ?b / of_int ?e < (of_int ws :: rat)" using q1 by simp
    note q2 = rat_div_div_less [OF epos wpos, of ?b ?d]
    show ?thesis
    proof (cases "bitwidth p < 32 \<and> ?b < ?d * ws * ?e")
      case True
      then have c2: "of_int ?b / of_int ?e / of_int ws < (of_int ?d :: rat)"
        using q2 by simp
      from six e0 w0 c1 c2 True keep1 show ?thesis
        by (simp add: fixBeginSize_def bindE_def py_truediv_def Let_def)
    next
      case False
      then have c2: "\<not> (bitwidth p < 32
          \<and> of_int ?b / of_int ?e / of_int ws < (of_int ?d :: rat))"
        using q2 by simp
      from six e0 w0 c1 c2 False keep1 show ?thesis
        by (auto simp add: fixBeginSize_def bindE_def py_truediv_def Let_def)
    qed
  qed
qed

lemma fixBeginSize_raises:
  assumes "0 < element_size p" and "1 \<le> ws"
  shows "\<exists>b. fixBeginSize p ws = Inr (p\<lparr>beginSize := b\<rparr>)
           \<and> beginSize p \<le> b
           \<and> (collective p \<in> {''all_to_all'', ''all_to_allv'', ''all_gather'',
                   ''all_gather_base'', ''gather'', ''reduce_scatter_base''}
                \<longrightarrow> ws * element_size p \<le> b)
           \<and> (32 \<le> bitwidth p \<and> ws * element_size p \<le> beginSize p \<longrightarrow> b = beginSize p)"
proof (cases "collective p \<in> {''all_to_all'', ''all_to_allv'', ''all_gather'',
                   ''all_gather_base'', ''gather'', ''reduce_scatter_base''}")
  case six: True
  let ?e = "element_size p"
  let ?b1 = "if beginSize p < ws * ?e then ws * ?e else beginSize p"
  let ?b2 = "if bitwidth p < 32 \<and> ?b1 < quant_a2a_embedding_dim p * ws * ?e
             then quant_a2a_embedding_dim p * ws * ?e else ?b1"
  have wpos: "0 < ws" using assms by simp
  have f: "fixBeginSize p ws = Inr (p\<lparr>beginSize := ?b2\<rparr>)"
    using fixBeginSize_six [OF six assms(1) wpos] by (simp add: Let_def)
  have b1: "beginSize p \<le> ?b1" "ws * ?e \<le> ?b1" by simp_all
  have b2: "?b1 \<le> ?b2" by simp
  have "beginSize p \<le> ?b2" using b1(1) b2 by linarith
  moreover have "ws * ?e \<le> ?b2" using b1(2) b2 by linarith
  moreover have "32 \<le> bitwidth p \<and> ws * ?e \<le> beginSize p \<longrightarrow> ?b2 = beginSize p"
    by simp
  ultimately show ?thesis using f by blast
next
  case other: False
  let ?b = "if (collective p = ''all_reduce'' \<or> collective p = ''reduce'')
               \<and> beginSize p < element_size p then element_size p else beginSize p"
  have f: "fixBeginSize p ws = Inr (p\<lparr>beginSize := ?b\<rparr>)"
    using other by (simp add: fixBeginSize_def)
  have "beginSize p \<le> ?b" by simp
  moreover have "32 \<le> bitwidth p \<and> ws * element_size p \<le> beginSize p \<longrightarrow> ?b = beginSize p"
  proof
    assume a: "32 \<le> bitwidth p \<and> ws * element_size p \<le> beginSize p"
    have "1 * element_size p \<le> ws * element_size p"
      using assms by (intro mult_right_mono) simp_all
    with a show "?b = beginSize p" by simp
  qed
  ultimately show ?thesis using f other by blast
qed

text \<open>
  C2, as the code has it. No divisibility check is made. For every split or flat
  collective (all_to_all, all_to_allv, all_gather, all_gather_base, reduce_scatter,
  reduce_scatter_base, gather, scatter) that the backend supports, every world size of at
  least 1 and all non-negative element counts, divisible by the world size or not,
  \<^verbatim>\<open>prepComm\<close> raises no error of its own, and every size it passes to an allocation
  primitive is the input or output element count or that count floor-divided by the world
  size (the backend's primitives are taken to return a buffer). \<^verbatim>\<open>fixBeginSize\<close>, for a
  positive element size, returns without an error, changes no attribute other than
  \<^verbatim>\<open>beginSize\<close> and never lowers it; for all_to_all, all_to_allv, all_gather,
  all_gather_base, gather and reduce_scatter_base it makes the begin size at least
  \<open>world_size\<close> elements; and at a bit width of 32 or more it leaves a begin size of at
  least \<open>world_size\<close> elements as it is.
\<close>

theorem prepComm_floor_division:
  assumes "commOp = aliasedName (case comms curComm of Some c \<Rightarrow> c
                                 | None \<Rightarrow> collective commsParams)"
    and "commOp \<in> {''all_to_all'', ''all_to_allv'', ''all_gather'', ''all_gather_base'',
            ''reduce_scatter'', ''reduce_scatter_base'', ''gather'', ''scatter''}"
    and "commOp \<in> set (collectiveFunc self)"
    and "1 \<le> world_size (collectiveArgs self)"
    and "0 \<le> inMsgSize curComm" and "0 \<le> outMsgSize curComm"
  shows "(\<exists>bufs new. fst (prepComm self curComm commsParams allocate s) = Inr bufs
            \<and> events (snd (prepComm self curComm commsParams allocate s)) = events s @ new
            \<and> (\<forall>ev\<in>set new. \<exists>f i sz dev dt sc. ev = Alloc f i sz dev dt sc
                  \<and> sz \<in> {Dims [inMsgSize curComm], Dims [outMsgSize curComm],
                          Count (inMsgSize curComm), Count (outMsgSize curComm),
                          Dims [inMsgSize curComm div world_size (collectiveArgs self)],
                          Dims [outMsgSize curComm div world_size (collectiveArgs self)]}))
         \<and> (0 < element_size commsParams \<longrightarrow>
              (\<exists>b. fixBeginSize commsParams (world_size (collectiveArgs self))
                      = Inr (commsParams\<lparr>beginSize := b\<rparr>)
                 \<and> beginSize commsParams \<le> b
                 \<and> (collective commsParams \<in> {''all_to_all'', ''all_to_allv'', ''all_gather'',
                         ''all_gather_base'', ''gather'', ''reduce_scatter_base''}
                      \<longrightarrow> world_size (collectiveArgs self) * element_size commsParams \<le> b)
                 \<and> (32 \<le> bitwidth commsParams
                        \<and> world_size (collectiveArgs self) * element_size commsParams
                            \<le> beginSize commsParams
                      \<longrightarrow> b = beginSize commsParams)))"
proof
  let ?ws = "world_size (collectiveArgs self)"
  let ?S = "staged_sizes (inMsgSize curComm) (outMsgSize curComm) ?ws"
  have ws: "?ws \<noteq> 0" using assms(4) by simp
  from dispatch_split_flat [OF assms(2)] obtain f where nb: "commOp \<notin> {''wait'', ''barrier''}"
    and d: "map_of dispatchDict commOp = Some f"
    and f: "f \<in> {prep_all_to_all, prep_all_to_allv, prep_all_gather, prep_all_gather_base,
                   prep_reduce_scatter, prep_reduce_scatter_base}"
    by blast
  have pf: "\<And>ip. stages_within ?S
      (f self ip curComm commsParams (inMsgSize curComm) (outMsgSize curComm) ?ws
         (device commsParams) (dtype commsParams) (outMsgSize curComm * outMsgSize curComm)
         allocate)"
    using f sw_prep [OF ws] by auto
  have "stages_within ?S (andThen new_list (\<lambda>opTensor0.
       andThen
         (if allocate
          then (if dcheck_c commsParams = 1
                then alloc_ones (Dims [inMsgSize curComm]) (device commsParams)
                       (dtype commsParams) (initVal self)
                else alloc_random (Dims [inMsgSize curComm]) (device commsParams)
                       (dtype commsParams) (outMsgSize curComm * outMsgSize curComm))
          else new_list) (\<lambda>ipTensor.
       f self ipTensor curComm commsParams (inMsgSize curComm)
         (outMsgSize curComm) ?ws (device commsParams)
         (dtype commsParams) (outMsgSize curComm * outMsgSize curComm) allocate)))"
    by (intro sw_intros pf; simp add: staged_sizes_def)
  then obtain bufs new where r: "fst (prepComm self curComm commsParams allocate s) = Inr bufs"
    "events (snd (prepComm self curComm commsParams allocate s)) = events s @ new"
    "list_all (sized_in ?S) new"
    unfolding stages_within_def prepComm_dispatch [OF assms(1,3) nb d, symmetric] by blast
  have "\<forall>ev\<in>set new. \<exists>f i sz dev dt sc. ev = Alloc f i sz dev dt sc
                  \<and> sz \<in> {Dims [inMsgSize curComm], Dims [outMsgSize curComm],
                          Count (inMsgSize curComm), Count (outMsgSize curComm),
                          Dims [inMsgSize curComm div ?ws], Dims [outMsgSize curComm div ?ws]}"
  proof
    fix ev assume "ev \<in> set new"
    with r(3) have "sized_in ?S ev" by (simp add: list_all_iff)
    then show "\<exists>f i sz dev dt sc. ev = Alloc f i sz dev dt sc
                  \<and> sz \<in> {Dims [inMsgSize curComm], Dims [outMsgSize curComm],
                          Count (inMsgSize curComm), Count (outMsgSize curComm),
                          Dims [inMsgSize curComm div ?ws], Dims [outMsgSize curComm div ?ws]}"
      by (cases ev) (simp_all add: sized_in_def staged_sizes_def)
  qed
  with r show "\<exists>bufs new. fst (prepComm self curComm commsParams allocate s) = Inr bufs
            \<and> events (snd (prepComm self curComm commsParams allocate s)) = events s @ new
            \<and> (\<forall>ev\<in>set new. \<exists>f i sz dev dt sc. ev = Alloc f i sz dev dt sc
                  \<and> sz \<in> {Dims [inMsgSize curComm], Dims [outMsgSize curComm],
                          Count (inMsgSize curComm), Count (outMsgSize curComm),
                          Dims [inMsgSize curComm div ?ws], Dims [outMsgSize curComm div ?ws]})"
    by blast
  show "0 < element_size commsParams \<longrightarrow>
              (\<exists>b. fixBeginSize commsParams ?ws = Inr (commsParams\<lparr>beginSize := b\<rparr>)
                 \<and> beginSize commsParams \<le> b
                 \<and> (collective commsParams \<in> {''all_to_all'', ''all_to_allv'', ''all_gather'',
                         ''all_gather_base'', ''gather'', ''reduce_scatter_base''}
                      \<longrightarrow> ?ws * element_size commsParams \<le> b)
                 \<and> (32 \<le> bitwidth commsParams
                        \<and> ?ws * element_size commsParams \<le> beginSize commsParams
                      \<longrightarrow> b = beginSize commsParams))"
    using fixBeginSize_raises [OF _ assms(4)] by blast
qed

lemma prepComm_all_gather_5_2:
  "prepComm bench2 (comm_of ''all_gather'' 5) (params_of ''all_gather'') True st0 =
     (Inr (TensorObj 3, ListObj 2 [TensorObj 4, TensorObj 5]),
      st0\<lparr>next_id := 6,
          events := [Alloc Alloc_random 1 (Dims [5]) ''cpu'' Float32 25,
                     Alloc Alloc_random 3 (Dims [2]) ''cpu'' Float32 25,
                     Alloc Alloc_random 4 (Dims [2]) ''cpu'' Float32 25,
                     Alloc Alloc_random 5 (Dims [2]) ''cpu'' Float32 25]\<rparr>)"
proof -
  have a: "aliasedName ''all_gather'' = ''all_gather''"
    by (simp add: name_defs)
  have m: "''all_gather'' \<in> set (collectiveFunc bench2)"
    by (simp add: bench2_def base_collectiveFunc_def)
  have c: "''all_gather'' = aliasedName (case comms (comm_of ''all_gather'' 5) of Some c \<Rightarrow> c
                | None \<Rightarrow> collective (params_of ''all_gather''))"
    by (simp add: comm_of_def a)
  have d: "map_of dispatchDict ''all_gather'' = Some prep_all_gather"
    by (simp add: dispatchDict_def)
  show ?thesis
    unfolding prepComm_dispatch [OF c m _ d, simplified]
    by (simp add: prep_all_gather_def comm_of_def params_of_def bench2_def st0_def andThen_def
        ret_def new_list_def fresh_def alloc_random_def backend_alloc_def emit_def lift_def
        py_floordiv_def numeral_2_eq_2)
qed

text \<open>
  C2, as stated, fails: with 5 elements on 2 ranks \<^verbatim>\<open>fixBeginSize\<close> leaves the begin size
  of 20 bytes (5 elements of 4 bytes) as it is, and \<^verbatim>\<open>prepComm\<close> for all_gather reports
  no error and allocates buffers of \<open>5 div 2 = 2\<close> elements.
\<close>

theorem prepComm_non_divisible_counterexample:
  "inMsgSize (comm_of ''all_gather'' 5) mod world_size (collectiveArgs bench2) \<noteq> 0
   \<and> fixBeginSize (params_of ''all_gather'') (world_size (collectiveArgs bench2))
       = Inr (params_of ''all_gather'')
   \<and> prepComm bench2 (comm_of ''all_gather'' 5) (params_of ''all_gather'') True st0 =
       (Inr (TensorObj 3, ListObj 2 [TensorObj 4, TensorObj 5]),
        st0\<lparr>next_id := 6,
            events := [Alloc Alloc_random 1 (Dims [5]) ''cpu'' Float32 25,
                       Alloc Alloc_random 3 (Dims [2]) ''cpu'' Float32 25,
                       Alloc Alloc_random 4 (Dims [2]) ''cpu'' Float32 25,
                       Alloc Alloc_random 5 (Dims [2]) ''cpu'' Float32 25]\<rparr>)"
proof -
  have "inMsgSize (comm_of ''all_gather'' 5) mod world_size (collectiveArgs bench2) \<noteq> 0"
    by (simp add: comm_of_def bench2_def)
  moreover have "fixBeginSize (params_of ''all_gather'') (world_size (collectiveArgs bench2))
       = Inr (params_of ''all_gather'')"
    by (simp add: fixBeginSize_def params_of_def bench2_def bindE_def py_truediv_def)
  ultimately show ?thesis
    using prepComm_all_gather_5_2 by simp
qed

theorem prepComm_floor_division_witness:
  "''all_gather'' \<in> set (collectiveFunc bench2)
   \<and> 1 \<le> world_size (collectiveArgs bench2)
   \<and> 0 \<le> inMsgSize (comm_of ''all_gather'' 5)
   \<and> 0 < element_size (params_of ''all_gather'')
   \<and> (\<exists>bufs. fst (prepComm bench2 (comm_of ''all_gather'' 5) (params_of ''all_gather'') True st0)
                = Inr bufs)
   \<and> fixBeginSize (params_of ''all_gather'') (world_size (collectiveArgs bench2))
        = Inr (params_of ''all_gather'')"
proof -
  have a: "aliasedName ''all_gather'' = ''all_gather''"
    by (simp add: name_defs)
  have m: "''all_gather'' \<in> set (collectiveFunc bench2)"
    by (simp add: bench2_def base_collectiveFunc_def)
  have c: "''all_gather'' = aliasedName (case comms (comm_of ''all_gather'' 5) of Some c \<Rightarrow> c
                | None \<Rightarrow> collective (params_of ''all_gather''))"
    by (simp add: comm_of_def a)
  have w: "1 \<le> world_size (collectiveArgs bench2)"
    by (simp add: bench2_def)
  have i: "0 \<le> inMsgSize (comm_of ''all_gather'' 5)"
    and o: "0 \<le> outMsgSize (comm_of ''all_gather'' 5)"
    by (simp_all add: comm_of_def)
  have e: "0 < element_size (params_of ''all_gather'')"
    by (simp add: params_of_def)
  have k: "''all_gather'' \<in> {''all_to_all'', ''all_to_allv'', ''all_gather'', ''all_gather_base'',
            ''reduce_scatter'', ''reduce_scatter_base'', ''gather'', ''scatter''}"
    by simp
  have big: "32 \<le> bitwidth (params_of ''all_gather'')
      \<and> world_size (collectiveArgs bench2) * element_size (params_of ''all_gather'')
          \<le> beginSize (params_of ''all_gather'')"
    by (simp add: params_of_def bench2_def)
  from prepComm_floor_division [OF c k m w i o, of True st0] e big
  obtain b where r: "\<exists>bufs. fst (prepComm bench2 (comm_of ''all_gather'' 5)
                       (params_of ''all_gather'') True st0) = Inr bufs"
    and f: "fixBeginSize (params_of ''all_gather'') (world_size (collectiveArgs bench2))
                = Inr ((params_of ''all_gather'')\<lparr>beginSize := b\<rparr>)"
    and b: "b = beginSize (params_of ''all_gather'')"
    by blast
  from f b have "fixBeginSize (params_of ''all_gather'') (world_size (collectiveArgs bench2))
        = Inr (params_of ''all_gather'')"
    by simp
  with m w i e r show ?thesis by blast
qed

end
